theory Spec2Isabelle
  imports Main "HOL-Library.AList" "HOL-Library.Finite_Map" "HOL-Library.Word"
begin

section \<open>JavaScript values\<close>

text \<open>
  The user module is sixteen one-line functions. Each evaluates its parameter
  defaults, builds a path, possibly an object, and returns the result of one
  method call on the \<open>api\<close> argument. What can differ between two calls is
  decided by the JavaScript values that are passed in, so the values are modelled
  first.

  A value is a primitive or an object. An object is its prototype and the finite
  map of its own enumerable data properties under string keys. The prototype is
  \<open>Object.prototype\<close> (object literals, \<open>JSON.parse\<close>), \<open>null\<close>
  (\<open>Object.create(null)\<close>) or another such object. The order in which JavaScript
  enumerates the keys of an object is not part of the value. A number is a sign
  and a magnitude below \<open>2^53\<close>: the integers that a double holds exactly and
  prints digit by digit, with both zeros. Strings are ASCII. Outside the model
  are function values, accessor properties, symbol keys, non-enumerable own
  properties, arrays, proxies and the numbers that are not such integers.
\<close>

datatype jsval =
    Undefined
  | Null
  | Bool bool
  | Num bool "53 word"
  | Str string
  | Sym string
  | Obj object
and object = Object (proto_of: proto) (own_of: "(string, jsval) fmap")
and proto = ObjectPrototype | NullPrototype | Prototype object

text \<open>An object literal, and the empty one.\<close>

abbreviation plain :: "(string \<times> jsval) list \<Rightarrow> jsval" where
  "plain ps \<equiv> Obj (Object ObjectPrototype (fmap_of_list ps))"

abbreviation empty_object :: object where
  "empty_object \<equiv> Object ObjectPrototype fmempty"

text \<open>The only error the module's own code can raise.\<close>

datatype error = TypeError

text \<open>Lookup in a list of named values, an absent name reading as \<open>undefined\<close>.\<close>

definition get_own :: "(string \<times> jsval) list \<Rightarrow> string \<Rightarrow> jsval" where
  "get_own ps k = (case map_of ps k of Some v \<Rightarrow> v | None \<Rightarrow> Undefined)"

text \<open>
  Property lookup along the prototype chain. The chain ends in \<open>null\<close> or in
  \<open>Object.prototype\<close>, whose own properties are built in: eleven methods and the
  accessor \<open>__proto__\<close>, all of them functions and none of them enumerable.
\<close>

datatype resolution = Data jsval | Builtin | Absent

definition object_prototype_keys :: "string list" where
  "object_prototype_keys =
     [''constructor'', ''__defineGetter__'', ''__defineSetter__'', ''hasOwnProperty'',
      ''__lookupGetter__'', ''__lookupSetter__'', ''isPrototypeOf'', ''propertyIsEnumerable'',
      ''toString'', ''valueOf'', ''__proto__'', ''toLocaleString'']"

fun find_property :: "object \<Rightarrow> string \<Rightarrow> resolution"
and find_inherited :: "proto \<Rightarrow> string \<Rightarrow> resolution" where
  "find_property (Object p ps) k =
     (case fmlookup ps k of Some v \<Rightarrow> Data v | None \<Rightarrow> find_inherited p k)"
| "find_inherited ObjectPrototype k =
     (if k \<in> set object_prototype_keys then Builtin else Absent)"
| "find_inherited NullPrototype k = Absent"
| "find_inherited (Prototype ob) k = find_property ob k"

text \<open>Decimal notation of a natural number, as used for array-index keys and numbers.\<close>

fun digits :: "nat \<Rightarrow> string" where
  "digits n =
     (if n < 10 then [''0123456789'' ! n]
      else digits (n div 10) @ [''0123456789'' ! (n mod 10)])"

declare digits.simps [simp del]

text \<open>\<open>Number::toString\<close> on these integers; minus zero prints as \<open>0\<close>.\<close>

definition number_to_string :: "bool \<Rightarrow> 53 word \<Rightarrow> string" where
  "number_to_string negative m =
     (if negative \<and> m \<noteq> 0 then ''-'' @ digits (unat m) else digits (unat m))"

text \<open>
  \<open>ToString\<close>, which a template literal \<open>`...${v}...`\<close> applies to \<open>v\<close>. A symbol
  cannot be converted. An object is converted by the \<open>toString\<close> it finds on its
  chain: the built-in one prints \<open>[object Object]\<close>. A \<open>toString\<close> that is a data
  property is not callable, and neither is a missing one; then \<open>valueOf\<close> is tried,
  which is a data property, missing, or the built-in one that returns the object
  itself, so no primitive is obtained and the conversion raises.
\<close>

fun to_string :: "jsval \<Rightarrow> error + string" where
  "to_string Undefined = Inr ''undefined''"
| "to_string Null = Inr ''null''"
| "to_string (Bool b) = Inr (if b then ''true'' else ''false'')"
| "to_string (Num negative m) = Inr (number_to_string negative m)"
| "to_string (Str s) = Inr s"
| "to_string (Sym d) = Inl TypeError"
| "to_string (Obj ob) =
     (case find_property ob ''toString'' of
        Builtin \<Rightarrow> Inr ''[object Object]''
      | Data v \<Rightarrow> Inl TypeError
      | Absent \<Rightarrow> Inl TypeError)"

text \<open>
  The expression \<open>this.redirectUri\<close>. The file is in strict mode, so \<open>this\<close> is
  whatever the call site binds: \<open>undefined\<close> for a plain call \<open>signin(api, ...)\<close>,
  the receiver for a method call. Reading a property of \<open>undefined\<close> or \<open>null\<close>
  raises; an object has the property or inherits it; a primitive receiver has no
  such property.
\<close>

fun this_redirectUri :: "jsval \<Rightarrow> error + jsval" where
  "this_redirectUri Undefined = Inl TypeError"
| "this_redirectUri Null = Inl TypeError"
| "this_redirectUri (Obj ob) =
     Inr (case find_property ob ''redirectUri'' of
            Data v \<Rightarrow> v
          | Builtin \<Rightarrow> Undefined
          | Absent \<Rightarrow> Undefined)"
| "this_redirectUri v = Inr Undefined"

text \<open>
  A parameter \<open>p = init\<close>: the initialiser is used (and only then evaluated) when
  the argument is \<open>undefined\<close>, whether omitted or passed explicitly.
\<close>

definition default_param :: "jsval \<Rightarrow> (error + jsval) \<Rightarrow> error + jsval" where
  "default_param v init = (if v = Undefined then init else Inr v)"

text \<open>
  \<open>Object.assign(target, ...sources)\<close>: each source in turn contributes its own
  enumerable properties, read with \<open>Get\<close> and written with \<open>Set\<close>. \<open>undefined\<close>
  and \<open>null\<close> sources are skipped; a boolean, number or symbol has no own
  enumerable property; a string has one per character, keyed by its index.
\<close>

fun own_enumerable :: "jsval \<Rightarrow> (string, jsval) fmap" where
  "own_enumerable (Str s) = fmap_of_list (map (\<lambda>i. (digits i, Str [s ! i])) [0..<length s])"
| "own_enumerable (Obj ob) = own_of ob"
| "own_enumerable v = fmempty"

text \<open>
  \<open>Set\<close> on an object, with the object itself as receiver. An own data property
  is overwritten. Otherwise the key is looked up along the chain: a data property
  found there is writable, and so are the built-in methods, so the property is
  created on the receiver, as it is when nothing is found. The one exception is
  the built-in accessor \<open>__proto__\<close>: its setter replaces the prototype of the
  receiver when the value is an object or \<open>null\<close>, and does nothing otherwise. It
  creates no property.
\<close>

fun set_prototype :: "jsval \<Rightarrow> object \<Rightarrow> object" where
  "set_prototype Null (Object p ps) = Object NullPrototype ps"
| "set_prototype (Obj ob) (Object p ps) = Object (Prototype ob) ps"
| "set_prototype v (Object p ps) = Object p ps"

fun set_property :: "string \<Rightarrow> jsval \<Rightarrow> object \<Rightarrow> object" where
  "set_property k v (Object p ps) =
     (if k \<in> fmdom' ps then Object p (fmupd k v ps)
      else if k = ''__proto__'' \<and> find_inherited p k = Builtin
        then set_prototype v (Object p ps)
      else Object p (fmupd k v ps))"

text \<open>
  Writing a finite map of properties to a target. Every key but \<open>__proto__\<close>
  ends up as an own property of the target, whatever the prototype of the target
  is at that moment, so these properties are added at once; a property
  \<open>__proto__\<close> is then written with \<open>Set\<close>. \<open>assign_in_any_order\<close> below shows
  that writing the properties one by one with \<open>Set\<close>, in whatever order they are
  enumerated, gives this result.
\<close>

definition assign_properties :: "(string, jsval) fmap \<Rightarrow> object \<Rightarrow> object" where
  "assign_properties e target =
     (let added = Object (proto_of target) (fmadd (own_of target) (fmdrop ''__proto__'' e))
      in case fmlookup e ''__proto__'' of
           None \<Rightarrow> added
         | Some v \<Rightarrow> set_property ''__proto__'' v added)"

definition assign_from :: "jsval \<Rightarrow> object \<Rightarrow> object" where
  "assign_from source target = assign_properties (own_enumerable source) target"

definition object_assign :: "object \<Rightarrow> jsval list \<Rightarrow> object" where
  "object_assign target sources = fold assign_from sources target"

section \<open>The transport\<close>

text \<open>
  The \<open>Api\<close> class is not part of the module: every function receives the handle
  as its first argument and only ever calls \<open>get\<close> or \<open>post\<close> on it. The handle
  is therefore a parameter of the model: two functions from the argument list of
  the call and the transport's state (of any type \<open>'s\<close>) to a deferred result
  (of any type \<open>'r\<close>, which also carries every failure of the request) and the
  next state, together with the handle's own data properties, which is where a
  stored \<open>redirectUri\<close> would live. The two functions always return: the
  specification has the transport report every failure in the deferred result.
  An \<open>api\<close> argument that is not such a handle is outside the model, the
  caller being required to supply one. A call is written as the method and the
  arguments as passed, so \<open>api.get(path)\<close> has one argument and
  \<open>api.get(path, query)\<close> two.
\<close>

datatype httpMethod = GET | POST

type_synonym call = "httpMethod \<times> jsval list"

record ('s, 'r) Api =
  api_own :: "(string \<times> jsval) list"
  api_get :: "jsval list \<Rightarrow> 's \<Rightarrow> 'r \<times> 's"
  api_post :: "jsval list \<Rightarrow> 's \<Rightarrow> 'r \<times> 's"

definition transport :: "httpMethod \<Rightarrow> ('s, 'r) Api \<Rightarrow> jsval list \<Rightarrow> 's \<Rightarrow> 'r \<times> 's" where
  "transport m api = (case m of GET \<Rightarrow> api_get api | POST \<Rightarrow> api_post api)"

text \<open>
  A transport that records: its state is the log of the calls made so far, every
  call is appended to it, and the result is whatever \<open>reply\<close> makes of the log
  and the call. It is the instrument for counting calls.
\<close>

definition recording ::
  "(string \<times> jsval) list \<Rightarrow> (call list \<Rightarrow> call \<Rightarrow> 'r) \<Rightarrow> (call list, 'r) Api" where
  "recording own reply =
     \<lparr> api_own = own,
       api_get = (\<lambda>args log. (reply log (GET, args), log @ [(GET, args)])),
       api_post = (\<lambda>args log. (reply log (POST, args), log @ [(POST, args)])) \<rparr>"

section \<open>The user module\<close>

text \<open>
  A function body is a computation over the transport's state that ends in an
  error or in a value. \<open>evaluate\<close> sequences an expression that may raise before
  the rest of the body; \<open>return_call\<close> is the statement \<open>return api.get(...)\<close>
  (or \<open>post\<close>): it runs the transport function once and returns what it returned.
\<close>

definition evaluate ::
  "error + 'a \<Rightarrow> ('a \<Rightarrow> 's \<Rightarrow> (error + 'r) \<times> 's) \<Rightarrow> 's \<Rightarrow> (error + 'r) \<times> 's" where
  "evaluate x k s = (case x of Inl e \<Rightarrow> (Inl e, s) | Inr v \<Rightarrow> k v s)"

definition return_call ::
  "(jsval list \<Rightarrow> 's \<Rightarrow> 'r \<times> 's) \<Rightarrow> jsval list \<Rightarrow> 's \<Rightarrow> (error + 'r) \<times> 's" where
  "return_call f args s = (case f args s of (r, s') \<Rightarrow> (Inr r, s'))"

definition me :: "('s, 'r) Api \<Rightarrow> 's \<Rightarrow> (error + 'r) \<times> 's" where
  "me api = return_call (api_get api) [Str ''/me'']"

definition signin ::
  "('s, 'r) Api \<Rightarrow> jsval \<Rightarrow> jsval \<Rightarrow> jsval \<Rightarrow> jsval \<Rightarrow> 's \<Rightarrow> (error + 'r) \<times> 's" where
  "signin api this identifier redirectUri context =
     evaluate (default_param redirectUri (this_redirectUri this)) (\<lambda>redirectUri.
       return_call (api_post api)
         [Str ''/api/2/signin'',
          plain [(''identifier'', identifier), (''redirectUri'', redirectUri), (''context'', context)]])"

definition user :: "('s, 'r) Api \<Rightarrow> jsval \<Rightarrow> 's \<Rightarrow> (error + 'r) \<times> 's" where
  "user api properties = return_call (api_post api) [Str ''/api/2/user'', properties]"

definition signup ::
  "('s, 'r) Api \<Rightarrow> jsval \<Rightarrow> jsval \<Rightarrow> jsval \<Rightarrow> jsval \<Rightarrow> 's \<Rightarrow> (error + 'r) \<times> 's" where
  "signup api this email password redirectUri =
     evaluate (default_param redirectUri (this_redirectUri this)) (\<lambda>redirectUri.
       return_call (api_post api)
         [Str ''/api/2/signup'',
          plain [(''email'', email), (''password'', password), (''redirectUri'', redirectUri)]])"

definition signupJwt :: "('s, 'r) Api \<Rightarrow> jsval \<Rightarrow> 's \<Rightarrow> (error + 'r) \<times> 's" where
  "signupJwt api jwt = return_call (api_post api) [Str ''/api/2/signup_jwt'', plain [(''jwt'', jwt)]]"

definition get :: "('s, 'r) Api \<Rightarrow> jsval \<Rightarrow> 's \<Rightarrow> (error + 'r) \<times> 's" where
  "get api userId =
     evaluate (to_string userId) (\<lambda>u.
       return_call (api_get api) [Str (''/api/2/user/'' @ u)])"

definition update :: "('s, 'r) Api \<Rightarrow> jsval \<Rightarrow> jsval \<Rightarrow> 's \<Rightarrow> (error + 'r) \<times> 's" where
  "update api userId properties =
     evaluate (to_string userId) (\<lambda>u.
       return_call (api_post api) [Str (''/api/2/user/'' @ u), properties])"

definition getAll :: "('s, 'r) Api \<Rightarrow> jsval \<Rightarrow> jsval \<Rightarrow> 's \<Rightarrow> (error + 'r) \<times> 's" where
  "getAll api criteria filters =
     return_call (api_get api) [Str ''/api/2/users'', Obj (object_assign empty_object [criteria, filters])]"

definition search :: "('s, 'r) Api \<Rightarrow> jsval \<Rightarrow> 's \<Rightarrow> (error + 'r) \<times> 's" where
  "search api query = return_call (api_get api) [Str ''/api/2/search/users'', query]"

definition searchFullText :: "('s, 'r) Api \<Rightarrow> jsval \<Rightarrow> 's \<Rightarrow> (error + 'r) \<times> 's" where
  "searchFullText api query =
     evaluate (to_string query) (\<lambda>q.
       return_call (api_get api) [Str (''/api/2/search/users/'' @ q)])"

definition triggerVerify ::
  "('s, 'r) Api \<Rightarrow> jsval \<Rightarrow> jsval \<Rightarrow> jsval \<Rightarrow> jsval \<Rightarrow> 's \<Rightarrow> (error + 'r) \<times> 's" where
  "triggerVerify api this userId trigger redirectUri =
     evaluate (default_param redirectUri (this_redirectUri this)) (\<lambda>redirectUri.
     evaluate (to_string userId) (\<lambda>u.
     evaluate (to_string trigger) (\<lambda>t.
       return_call (api_get api)
         [Str (''/user/'' @ u @ ''/trigger/'' @ t), plain [(''redirectUri'', redirectUri)]])))"

definition getMailHistory :: "('s, 'r) Api \<Rightarrow> jsval \<Rightarrow> jsval \<Rightarrow> 's \<Rightarrow> (error + 'r) \<times> 's" where
  "getMailHistory api id' email =
     return_call (api_get api) [Str ''/mail'', plain [(''id'', id'), (''email'', email)]]"

definition getLevel :: "('s, 'r) Api \<Rightarrow> jsval \<Rightarrow> 's \<Rightarrow> (error + 'r) \<times> 's" where
  "getLevel api userId =
     evaluate (to_string userId) (\<lambda>u.
       return_call (api_get api) [Str (''/user/'' @ u @ ''/level'')])"

definition isConnected :: "('s, 'r) Api \<Rightarrow> jsval \<Rightarrow> 's \<Rightarrow> (error + 'r) \<times> 's" where
  "isConnected api userId =
     evaluate (to_string userId) (\<lambda>u.
       return_call (api_get api) [Str (''/user/'' @ u @ ''/connected'')])"

definition getAllAgreements :: "('s, 'r) Api \<Rightarrow> jsval \<Rightarrow> 's \<Rightarrow> (error + 'r) \<times> 's" where
  "getAllAgreements api userId =
     evaluate (to_string userId) (\<lambda>u.
       return_call (api_get api) [Str (''/api/2/user/'' @ u @ ''/agreements'')])"

definition acceptAgreements :: "('s, 'r) Api \<Rightarrow> jsval \<Rightarrow> 's \<Rightarrow> (error + 'r) \<times> 's" where
  "acceptAgreements api userId =
     evaluate (to_string userId) (\<lambda>u.
       return_call (api_post api) [Str (''/user/'' @ u @ ''/agreements/accept'')])"

text \<open>
  The module's export object names the sixteen functions. A call of an exported
  function passes \<open>api\<close> first and then the remaining arguments by position: a
  parameter with no argument is \<open>undefined\<close>, an argument with no parameter is
  ignored.
\<close>

datatype binding =
    Me | Signin | User | Signup | SignupJwt | Get | Update | GetAll | Search
  | SearchFullText | TriggerVerify | GetMailHistory | GetLevel | IsConnected
  | GetAllAgreements | AcceptAgreements


definition arg :: "jsval list \<Rightarrow> nat \<Rightarrow> jsval" where
  "arg vs i = (if i < length vs then vs ! i else Undefined)"

fun invoke ::
  "binding \<Rightarrow> ('s, 'r) Api \<Rightarrow> jsval \<Rightarrow> jsval list \<Rightarrow> 's \<Rightarrow> (error + 'r) \<times> 's" where
  "invoke Me api this vs = me api"
| "invoke Signin api this vs = signin api this (arg vs 0) (arg vs 1) (arg vs 2)"
| "invoke User api this vs = user api (arg vs 0)"
| "invoke Signup api this vs = signup api this (arg vs 0) (arg vs 1) (arg vs 2)"
| "invoke SignupJwt api this vs = signupJwt api (arg vs 0)"
| "invoke Get api this vs = get api (arg vs 0)"
| "invoke Update api this vs = update api (arg vs 0) (arg vs 1)"
| "invoke GetAll api this vs = getAll api (arg vs 0) (arg vs 1)"
| "invoke Search api this vs = search api (arg vs 0)"
| "invoke SearchFullText api this vs = searchFullText api (arg vs 0)"
| "invoke TriggerVerify api this vs = triggerVerify api this (arg vs 0) (arg vs 1) (arg vs 2)"
| "invoke GetMailHistory api this vs = getMailHistory api (arg vs 0) (arg vs 1)"
| "invoke GetLevel api this vs = getLevel api (arg vs 0)"
| "invoke IsConnected api this vs = isConnected api (arg vs 0)"
| "invoke GetAllAgreements api this vs = getAllAgreements api (arg vs 0)"
| "invoke AcceptAgreements api this vs = acceptAgreements api (arg vs 0)"

text \<open>
  The calls one invocation makes, as a recording transport with an empty log sees
  them.
\<close>

definition issued :: "binding \<Rightarrow> jsval \<Rightarrow> jsval list \<Rightarrow> call list" where
  "issued b this vs = snd (invoke b (recording [] (\<lambda>log c. ())) this vs [])"

text \<open>
  The HTTP method each function declares, in the \<open>@see\<close> line of its
  documentation comment (\<open>.../endpoints/GET/me/\<close>, \<open>.../endpoints/POST/signin/\<close>,
  and so on).
\<close>

fun declared_method :: "binding \<Rightarrow> httpMethod" where
  "declared_method Signin = POST"
| "declared_method User = POST"
| "declared_method Signup = POST"
| "declared_method SignupJwt = POST"
| "declared_method Update = POST"
| "declared_method AcceptAgreements = POST"
| "declared_method b = GET"

text \<open>The parameter names of each function after \<open>api\<close>, in declaration order.\<close>

fun signature :: "binding \<Rightarrow> string list" where
  "signature Me = []"
| "signature Signin = [''identifier'', ''redirectUri'', ''context'']"
| "signature User = [''properties'']"
| "signature Signup = [''email'', ''password'', ''redirectUri'']"
| "signature SignupJwt = [''jwt'']"
| "signature Get = [''userId'']"
| "signature Update = [''userId'', ''properties'']"
| "signature GetAll = [''criteria'', ''filters'']"
| "signature Search = [''query'']"
| "signature SearchFullText = [''query'']"
| "signature TriggerVerify = [''userId'', ''trigger'', ''redirectUri'']"
| "signature GetMailHistory = [''id'', ''email'']"
| "signature GetLevel = [''userId'']"
| "signature IsConnected = [''userId'']"
| "signature GetAllAgreements = [''userId'']"
| "signature AcceptAgreements = [''userId'']"

section \<open>The top-level module\<close>


section \<open>The endpoint descriptors of the specification\<close>

text \<open>
  The specification describes every function by an endpoint descriptor: an HTTP
  method, a path template with placeholders, the parameters sent as the query
  (of a \<open>GET\<close>) and the parameters sent as the body (of a \<open>POST\<close>). The
  definitions of this section follow the specification, not the code, and are
  compared with the code below. Two things are made explicit that the
  specification says in prose: how the parameters of a slot are packed (the
  parameter itself, an object with one field per parameter, or the merge of
  several objects), and which parameters default to \<open>this.redirectUri\<close>.
\<close>

datatype segment = Lit string | Param string

datatype params = NoParams | Whole string | Fields "string list" | Merged "string list"

record EndpointDescriptor =
  httpMethod :: httpMethod
  pathTemplate :: "segment list"
  queryParams :: params
  bodyParams :: params
  defaults :: "string list"

text \<open>Arguments are bound to the declared parameters by position.\<close>

fun bind_params :: "string list \<Rightarrow> jsval list \<Rightarrow> (string \<times> jsval) list" where
  "bind_params [] vs = []"
| "bind_params (n # ns) vs =
     (n, case vs of [] \<Rightarrow> Undefined | v # _ \<Rightarrow> v) # bind_params ns (tl vs)"

fun apply_defaults ::
  "string list \<Rightarrow> jsval \<Rightarrow> (string \<times> jsval) list \<Rightarrow> error + (string \<times> jsval) list" where
  "apply_defaults [] this env = Inr env"
| "apply_defaults (n # ns) this env =
     (case default_param (get_own env n) (this_redirectUri this) of
        Inl e \<Rightarrow> Inl e
      | Inr v \<Rightarrow> apply_defaults ns this (AList.update n v env))"

fun resolve_path :: "segment list \<Rightarrow> (string \<times> jsval) list \<Rightarrow> error + string" where
  "resolve_path [] env = Inr []"
| "resolve_path (Lit l # segs) env =
     (case resolve_path segs env of Inl e \<Rightarrow> Inl e | Inr rest \<Rightarrow> Inr (l @ rest))"
| "resolve_path (Param n # segs) env =
     (case to_string (get_own env n) of
        Inl e \<Rightarrow> Inl e
      | Inr u \<Rightarrow>
          (case resolve_path segs env of Inl e \<Rightarrow> Inl e | Inr rest \<Rightarrow> Inr (u @ rest)))"

fun payload :: "params \<Rightarrow> (string \<times> jsval) list \<Rightarrow> jsval list" where
  "payload NoParams env = []"
| "payload (Whole n) env = [get_own env n]"
| "payload (Fields ns) env = [plain (map (\<lambda>n. (n, get_own env n)) ns)]"
| "payload (Merged ns) env = [Obj (object_assign empty_object (map (get_own env) ns))]"

definition used_params :: "EndpointDescriptor \<Rightarrow> params" where
  "used_params d = (case httpMethod d of GET \<Rightarrow> queryParams d | POST \<Rightarrow> bodyParams d)"


text \<open>
  The request a descriptor stands for, and the generic binding: assemble the
  request, then make the one transport call.
\<close>

definition request ::
  "EndpointDescriptor \<Rightarrow> string list \<Rightarrow> jsval \<Rightarrow> jsval list \<Rightarrow> error + call" where
  "request d sig this vs =
     (case apply_defaults (defaults d) this (bind_params sig vs) of
        Inl e \<Rightarrow> Inl e
      | Inr env \<Rightarrow>
          (case resolve_path (pathTemplate d) env of
             Inl e \<Rightarrow> Inl e
           | Inr path \<Rightarrow> Inr (httpMethod d, Str path # payload (used_params d) env)))"

definition dispatch ::
  "EndpointDescriptor \<Rightarrow> string list \<Rightarrow> ('s, 'r) Api \<Rightarrow> jsval \<Rightarrow> jsval list \<Rightarrow> 's \<Rightarrow>
     (error + 'r) \<times> 's" where
  "dispatch d sig api this vs =
     evaluate (request d sig this vs) (\<lambda>(m, args). return_call (transport m api) args)"




definition endpoint ::
  "httpMethod \<Rightarrow> segment list \<Rightarrow> params \<Rightarrow> string list \<Rightarrow> EndpointDescriptor" where
  "endpoint m path ps ds =
     \<lparr> httpMethod = m, pathTemplate = path,
       queryParams = (case m of GET \<Rightarrow> ps | POST \<Rightarrow> NoParams),
       bodyParams = (case m of GET \<Rightarrow> NoParams | POST \<Rightarrow> ps),
       defaults = ds \<rparr>"

text \<open>
  The table of external interfaces, completed along the same pattern for the six
  functions it leaves out.
\<close>

fun descriptor :: "binding \<Rightarrow> EndpointDescriptor" where
  "descriptor Me = endpoint GET [Lit ''/me''] NoParams []"
| "descriptor Signin =
     endpoint POST [Lit ''/api/2/signin''] (Fields [''identifier'', ''redirectUri'', ''context''])
       [''redirectUri'']"
| "descriptor User = endpoint POST [Lit ''/api/2/user''] (Whole ''properties'') []"
| "descriptor Signup =
     endpoint POST [Lit ''/api/2/signup''] (Fields [''email'', ''password'', ''redirectUri''])
       [''redirectUri'']"
| "descriptor SignupJwt = endpoint POST [Lit ''/api/2/signup_jwt''] (Fields [''jwt'']) []"
| "descriptor Get = endpoint GET [Lit ''/api/2/user/'', Param ''userId''] NoParams []"
| "descriptor Update =
     endpoint POST [Lit ''/api/2/user/'', Param ''userId''] (Whole ''properties'') []"
| "descriptor GetAll = endpoint GET [Lit ''/api/2/users''] (Merged [''criteria'', ''filters'']) []"
| "descriptor Search = endpoint GET [Lit ''/api/2/search/users''] (Whole ''query'') []"
| "descriptor SearchFullText =
     endpoint GET [Lit ''/api/2/search/users/'', Param ''query''] NoParams []"
| "descriptor TriggerVerify =
     endpoint GET [Lit ''/user/'', Param ''userId'', Lit ''/trigger/'', Param ''trigger'']
       (Fields [''redirectUri'']) [''redirectUri'']"
| "descriptor GetMailHistory = endpoint GET [Lit ''/mail''] (Fields [''id'', ''email'']) []"
| "descriptor GetLevel =
     endpoint GET [Lit ''/user/'', Param ''userId'', Lit ''/level''] NoParams []"
| "descriptor IsConnected =
     endpoint GET [Lit ''/user/'', Param ''userId'', Lit ''/connected''] NoParams []"
| "descriptor GetAllAgreements =
     endpoint GET [Lit ''/api/2/user/'', Param ''userId'', Lit ''/agreements''] NoParams []"
| "descriptor AcceptAgreements =
     endpoint POST [Lit ''/user/'', Param ''userId'', Lit ''/agreements/accept''] NoParams []"

section \<open>When a call raises\<close>

text \<open>
  Two expressions of the module can raise. A template literal raises on a value
  that has no string conversion (a symbol, or an object that does not inherit the
  built-in \<open>toString\<close>), and \<open>this.redirectUri\<close> raises when it is
  evaluated, that is when the argument is \<open>undefined\<close>, with \<open>this\<close> being
  \<open>undefined\<close> or \<open>null\<close>. \<open>no_type_error\<close> collects, function by function,
  the conditions under which neither happens.
\<close>

fun convertible :: "jsval \<Rightarrow> bool" where
  "convertible (Sym d) = False"
| "convertible (Obj ob) = (find_property ob ''toString'' = Builtin)"
| "convertible v = True"

definition defaultable :: "jsval \<Rightarrow> jsval \<Rightarrow> bool" where
  "defaultable v this = (v \<noteq> Undefined \<or> (this \<noteq> Undefined \<and> this \<noteq> Null))"

fun no_type_error :: "binding \<Rightarrow> jsval \<Rightarrow> jsval list \<Rightarrow> bool" where
  "no_type_error Signin this vs = defaultable (arg vs 1) this"
| "no_type_error Signup this vs = defaultable (arg vs 2) this"
| "no_type_error TriggerVerify this vs =
     (defaultable (arg vs 2) this \<and> convertible (arg vs 0) \<and> convertible (arg vs 1))"
| "no_type_error Get this vs = convertible (arg vs 0)"
| "no_type_error Update this vs = convertible (arg vs 0)"
| "no_type_error SearchFullText this vs = convertible (arg vs 0)"
| "no_type_error GetLevel this vs = convertible (arg vs 0)"
| "no_type_error IsConnected this vs = convertible (arg vs 0)"
| "no_type_error GetAllAgreements this vs = convertible (arg vs 0)"
| "no_type_error AcceptAgreements this vs = convertible (arg vs 0)"
| "no_type_error b this vs = True"

section \<open>Auxiliary facts\<close>

subsection \<open>Positional arguments\<close>

lemma arg_0: "arg vs 0 = (case vs of [] \<Rightarrow> Undefined | v # _ \<Rightarrow> v)"
  by (cases vs) (simp_all add: arg_def)

lemma arg_Suc: "arg vs (Suc i) = arg (tl vs) i"
  by (cases vs) (simp_all add: arg_def)

lemma arg_2: "arg vs 2 = arg (tl (tl vs)) 0"
  using arg_Suc [of vs 1] arg_Suc [of "tl vs" 0] by (simp add: numeral_2_eq_2)

lemma bind_params_0: "bind_params (n # ns) vs = (n, arg vs 0) # bind_params ns (tl vs)"
  by (simp add: arg_0)

subsection \<open>The code against the descriptors\<close>

lemma invoke_dispatch:
  "invoke b api this vs s = dispatch (descriptor b) (signature b) api this vs s"
  by (cases b)
    (simp_all add: dispatch_def request_def endpoint_def used_params_def transport_def
      me_def signin_def user_def signup_def signupJwt_def get_def update_def getAll_def
      search_def searchFullText_def triggerVerify_def getMailHistory_def getLevel_def
      isConnected_def getAllAgreements_def acceptAgreements_def
      evaluate_def arg_Suc arg_2 get_own_def bind_params_0 del: bind_params.simps
      split: sum.splits)

lemma invoke_request:
  "invoke b api this vs s =
     (case request (descriptor b) (signature b) this vs of
        Inl e \<Rightarrow> (Inl e, s)
      | Inr c \<Rightarrow> return_call (transport (fst c) api) (snd c) s)"
  by (simp add: invoke_dispatch dispatch_def evaluate_def split: sum.splits prod.splits)

subsection \<open>Which calls raise\<close>

lemma error_eq: "(e :: error) = TypeError"
  by (cases e) simp

lemma to_string_Inl: "(to_string v = Inl e) = (\<not> convertible v)"
  by (cases v) (simp_all add: error_eq [of e] split: resolution.splits)

lemma to_string_Inr: "to_string v = Inr u \<Longrightarrow> convertible v"
  by (cases v) (simp_all split: resolution.splits)

lemma default_Inl:
  "(default_param v (this_redirectUri this) = Inl e) = (\<not> defaultable v this)"
  by (cases this) (simp_all add: default_param_def defaultable_def error_eq [of e])

lemma default_Inr:
  "default_param v (this_redirectUri this) = Inr w \<Longrightarrow> defaultable v this"
  by (cases this) (simp_all add: default_param_def defaultable_def split: if_splits)



lemma request_cases:
  "(no_type_error b this vs \<and>
      (\<exists>args. request (descriptor b) (signature b) this vs = Inr (declared_method b, args)))
   \<or> (\<not> no_type_error b this vs \<and>
      request (descriptor b) (signature b) this vs = Inl TypeError)"
  apply (cases b)
  apply (simp_all add: request_def endpoint_def used_params_def
      arg_Suc arg_2 get_own_def bind_params_0 to_string_Inl default_Inl
      del: bind_params.simps split: sum.splits)
  apply (auto simp: error_eq dest: to_string_Inr default_Inr)
  done

lemma request_ok:
  assumes "no_type_error b this vs"
  obtains args where
    "request (descriptor b) (signature b) this vs = Inr (declared_method b, args)"
  using assms request_cases [of b this vs] by blast

lemma invoke_error:
  assumes "\<not> no_type_error b this vs"
  shows "invoke b api this vs s = (Inl TypeError, s)"
  using assms request_cases [of b this vs] by (simp add: invoke_request)

lemma recording_call:
  "return_call (transport m (recording own reply)) args log =
     (Inr (reply log (m, args)), log @ [(m, args)])"
  by (cases m) (simp_all add: return_call_def transport_def recording_def)

lemma issued_request:
  "issued b this vs =
     (case request (descriptor b) (signature b) this vs of Inl e \<Rightarrow> [] | Inr c \<Rightarrow> [c])"
  by (simp add: issued_def invoke_request recording_call split: sum.splits)

subsection \<open>Object.assign\<close>

lemma set_property_other:
  "k \<noteq> ''__proto__'' \<Longrightarrow> set_property k v (Object p ps) = Object p (fmupd k v ps)"
  by simp



lemma fmlookup_fmadd_case:
  "fmlookup (fmadd m n) k = (case fmlookup n k of Some v \<Rightarrow> Some v | None \<Rightarrow> fmlookup m k)"
  by (cases "fmlookup n k") (simp_all add: fmdom_notI fmdomI)



text \<open>
  Writing the own enumerable properties \<open>e\<close> of a source one by one, in any order
  that lists each key once, is what \<open>assign_from\<close> does.
\<close>

lemma set_property_fmadd_commute:
  assumes "fmlookup e ''__proto__'' = None"
  shows "set_property ''__proto__'' v (Object p (fmadd ps e)) =
     Object (proto_of (set_property ''__proto__'' v (Object p ps)))
       (fmadd (own_of (set_property ''__proto__'' v (Object p ps))) e)"
proof -
  have dom: "''__proto__'' \<in> fmdom' (fmadd ps e) \<longleftrightarrow> ''__proto__'' \<in> fmdom' ps"
    using assms by (simp add: fmdom'_notI)
  have upd: "fmupd ''__proto__'' w (fmadd ps e) = fmadd (fmupd ''__proto__'' w ps) e" for w
  proof (rule fmap_ext)
    fix k
    show "fmlookup (fmupd ''__proto__'' w (fmadd ps e)) k =
        fmlookup (fmadd (fmupd ''__proto__'' w ps) e) k"
      using assms by (cases "k = ''__proto__''") (simp_all add: fmdom_notI)
  qed
  show ?thesis
    by (cases v) (simp_all add: dom upd del: fmdom'_add)
qed

lemma assign_properties_step:
  assumes "fmlookup e k = Some v"
  shows "assign_properties (fmdrop k e) (set_property k v target) = assign_properties e target"
proof (cases "k = ''__proto__''")
  case True
  obtain p ps where target: "target = Object p ps" by (cases target)
  let ?e' = "fmdrop ''__proto__'' e"
  have none: "fmlookup ?e' ''__proto__'' = None" by simp
  have "assign_properties ?e' (set_property ''__proto__'' v target) =
      Object (proto_of (set_property ''__proto__'' v (Object p ps)))
        (fmadd (own_of (set_property ''__proto__'' v (Object p ps))) ?e')"
    by (simp add: assign_properties_def target del: set_property.simps)
  also have "\<dots> = set_property ''__proto__'' v (Object p (fmadd ps ?e'))"
    by (rule set_property_fmadd_commute [OF none, symmetric])
  also have "\<dots> = assign_properties e target"
    using assms True by (simp add: assign_properties_def target del: set_property.simps)
  finally show ?thesis using True by simp
next
  case False
  obtain p ps where target: "target = Object p ps" by (cases target)
  have maps: "fmadd (fmupd k v ps) (fmdrop ''__proto__'' (fmdrop k e)) =
      fmadd ps (fmdrop ''__proto__'' e)"
  proof (rule fmap_ext)
    fix x
    show "fmlookup (fmadd (fmupd k v ps) (fmdrop ''__proto__'' (fmdrop k e))) x =
        fmlookup (fmadd ps (fmdrop ''__proto__'' e)) x"
      using assms False
      by (cases "x = k"; cases "fmlookup e x")
        (simp_all add: fmlookup_fmadd_case del: fmlookup_add)
  qed
  have "fmlookup (fmdrop k e) ''__proto__'' = fmlookup e ''__proto__''"
    using False by simp
  with maps False show ?thesis
    by (simp add: assign_properties_def target del: set_property.simps)
      (simp add: set_property_other)
qed

lemma assign_properties_in_any_order:
  assumes "distinct ks" and "set ks = fmdom' e"
    and "\<And>k. k \<in> set ks \<Longrightarrow> fmlookup e k = Some (g k)"
  shows "fold (\<lambda>k. set_property k (g k)) ks target = assign_properties e target"
  using assms
proof (induction ks arbitrary: e target)
  case Nil
  then have "e = fmempty" by (intro fmap_ext) (simp add: fmdom'_notD)
  then show ?case by (cases target) (simp add: assign_properties_def)
next
  case (Cons k ks)
  have lookup: "fmlookup e k = Some (g k)" using Cons.prems(3) by simp
  have "fold (\<lambda>k. set_property k (g k)) ks (set_property k (g k) target) =
      assign_properties (fmdrop k e) (set_property k (g k) target)"
  proof (rule Cons.IH)
    show "distinct ks" using Cons.prems(1) by simp
    show "set ks = fmdom' (fmdrop k e)" using Cons.prems(1,2) by auto
    show "fmlookup (fmdrop k e) k' = Some (g k')" if "k' \<in> set ks" for k'
      using that Cons.prems(1,3) by auto
  qed
  also have "\<dots> = assign_properties e target"
    by (rule assign_properties_step [OF lookup])
  finally show ?case by simp
qed

lemma assign_in_any_order:
  assumes "distinct ks" and "set ks = fmdom' (own_enumerable source)"
  shows "fold (\<lambda>k. set_property k (the (fmlookup (own_enumerable source) k))) ks target =
     assign_from source target"
  unfolding assign_from_def
proof (rule assign_properties_in_any_order [OF assms])
  fix k
  assume "k \<in> set ks"
  with assms(2) show "fmlookup (own_enumerable source) k =
      Some (the (fmlookup (own_enumerable source) k))"
    by (auto simp: fmlookup_dom'_iff)
qed


section \<open>Properties\<close>

text \<open>
  C1. The testable property of the specification takes the default from the
  \<open>api\<close> argument: \<open>signin(api, "a@b.com", undefined, ctx)\<close> with
  \<open>api.redirectUri === "https://x"\<close> would send \<open>redirectUri: "https://x"\<close>. The
  code reads \<open>this.redirectUri\<close>, and \<open>this\<close> is the receiver of the call, not the
  first argument. What holds, for every receiver, transport and argument: when
  the argument is \<open>undefined\<close> and \<open>this.redirectUri\<close> evaluates to \<open>d\<close>, the
  call is one \<open>POST /api/2/signin\<close> whose body is
  \<open>{identifier, redirectUri: d, context}\<close>; when the argument is anything but
  \<open>undefined\<close>, the body carries the argument, and \<open>this\<close> is not looked at.
\<close>

theorem signin_redirectUri_default:
  "(this_redirectUri this = Inr d \<longrightarrow>
      signin (recording own reply) this identifier Undefined context log =
        (Inr (reply log (POST, [Str ''/api/2/signin'',
            plain [(''identifier'', identifier), (''redirectUri'', d), (''context'', context)]])),
         log @ [(POST, [Str ''/api/2/signin'',
            plain [(''identifier'', identifier), (''redirectUri'', d), (''context'', context)]])]))
   \<and> (redirectUri \<noteq> Undefined \<longrightarrow>
      signin (recording own reply) this identifier redirectUri context log =
        (Inr (reply log (POST, [Str ''/api/2/signin'',
            plain [(''identifier'', identifier), (''redirectUri'', redirectUri), (''context'', context)]])),
         log @ [(POST, [Str ''/api/2/signin'',
            plain [(''identifier'', identifier), (''redirectUri'', redirectUri), (''context'', context)]])]))"
  by (simp add: signin_def evaluate_def default_param_def return_call_def recording_def)

text \<open>
  The theorem at a receiver that stores \<open>redirectUri: "https://x"\<close>, and at an
  explicit \<open>"https://y"\<close> with no receiver at all.
\<close>

theorem signin_redirectUri_default_witness:
  "this_redirectUri (plain [(''redirectUri'', Str ''https://x'')]) = Inr (Str ''https://x'')
   \<and> signin (recording [] (\<lambda>log c. length log)) (plain [(''redirectUri'', Str ''https://x'')])
        (Str ''a@b.com'') Undefined (Str ''ctx'') [] =
        (Inr 0, [(POST, [Str ''/api/2/signin'',
            plain [(''identifier'', Str ''a@b.com''), (''redirectUri'', Str ''https://x''),
                 (''context'', Str ''ctx'')]])])
   \<and> Str ''https://y'' \<noteq> Undefined
   \<and> signin (recording [] (\<lambda>log c. length log)) Undefined
        (Str ''a@b.com'') (Str ''https://y'') (Str ''ctx'') [] =
        (Inr 0, [(POST, [Str ''/api/2/signin'',
            plain [(''identifier'', Str ''a@b.com''), (''redirectUri'', Str ''https://y''),
                 (''context'', Str ''ctx'')]])])"
  using signin_redirectUri_default [of "plain [(''redirectUri'', Str ''https://x'')]"
      "Str ''https://x''" "[]" "\<lambda>log c. length log" "Str ''a@b.com''" "Str ''ctx''" "[]"
      "Undefined"]
    signin_redirectUri_default [of "Undefined" "Undefined" "[]" "\<lambda>log c. length log"
      "Str ''a@b.com''" "Str ''ctx''" "[]" "Str ''https://y''"]
  by (simp add: get_own_def)

text \<open>
  Where the default does not come from the handle. The handle stores
  \<open>redirectUri: "https://x"\<close>; called
  on a receiver without that property (such as the module object in
  \<open>user.signin(api, ...)\<close>) the body carries \<open>redirectUri: undefined\<close>, and called
  with no receiver (\<open>signin(api, ...)\<close>) the function raises and sends nothing.
\<close>

theorem signin_redirectUri_from_api_counterexample:
  "get_own (api_own (recording [(''redirectUri'', Str ''https://x'')] (\<lambda>log c. ())))
      ''redirectUri'' = Str ''https://x''
   \<and> signin (recording [(''redirectUri'', Str ''https://x'')] (\<lambda>log c. ())) (plain [])
        (Str ''a@b.com'') Undefined (Str ''ctx'') [] =
        (Inr (), [(POST, [Str ''/api/2/signin'',
            plain [(''identifier'', Str ''a@b.com''), (''redirectUri'', Undefined),
                 (''context'', Str ''ctx'')]])])
   \<and> signin (recording [(''redirectUri'', Str ''https://x'')] (\<lambda>log c. ())) Undefined
        (Str ''a@b.com'') Undefined (Str ''ctx'') [] = (Inl TypeError, [])"
  by (simp add: signin_def evaluate_def default_param_def return_call_def recording_def
      get_own_def)

text \<open>
  C2. The specification has every invocation make exactly one transport call. An
  invocation
  that raises while it evaluates its parameter default or its path never reaches
  the transport. What holds, on the recording transport and for every function,
  receiver and argument list: if the call does not raise, the log grows by
  exactly one call, made with the method the function declares, and the value
  returned is the reply to that call; if it raises, the error is a
  \<open>TypeError\<close> and the log is unchanged.
\<close>

theorem invoke_one_transport_call:
  "(no_type_error b this vs \<longrightarrow>
      (\<exists>args. invoke b (recording own reply) this vs log =
         (Inr (reply log (declared_method b, args)), log @ [(declared_method b, args)])))
   \<and> (\<not> no_type_error b this vs \<longrightarrow>
      invoke b (recording own reply) this vs log = (Inl TypeError, log))"
proof (cases "no_type_error b this vs")
  case True
  then obtain args where
    "request (descriptor b) (signature b) this vs = Inr (declared_method b, args)"
    by (rule request_ok)
  then have "invoke b (recording own reply) this vs log =
      (Inr (reply log (declared_method b, args)), log @ [(declared_method b, args)])"
    by (simp add: invoke_request recording_call)
  with True show ?thesis by blast
next
  case False
  then show ?thesis by (simp add: invoke_error)
qed

theorem invoke_one_transport_call_witness:
  "no_type_error Signin (plain [(''redirectUri'', Str ''https://x'')]) [Str ''a@b.com'']
   \<and> (\<exists>args. invoke Signin (recording [] (\<lambda>log c. length log))
         (plain [(''redirectUri'', Str ''https://x'')]) [Str ''a@b.com''] [] =
         (Inr 0, [(POST, args)]))
   \<and> \<not> no_type_error Get Undefined [Sym ''id'']
   \<and> invoke Get (recording [] (\<lambda>log c. length log)) Undefined [Sym ''id''] [] =
       (Inl TypeError, [])"
  using invoke_one_transport_call [where b = Signin
      and this = "plain [(''redirectUri'', Str ''https://x'')]"
      and vs = "[Str ''a@b.com'']" and own = "[]" and reply = "\<lambda>log c. length log"
      and log = "[]"]
    invoke_one_transport_call [where b = Get and this = Undefined
      and vs = "[Sym ''id'']" and own = "[]" and reply = "\<lambda>log c. length log"
      and log = "[]"]
  by (simp add: defaultable_def arg_def)

text \<open>
  The plain call \<open>signin(api, "a@b.com")\<close>: strict mode leaves \<open>this\<close> undefined,
  the default \<open>this.redirectUri\<close> raises, and no call is recorded. Nor is one
  recorded for \<open>getLevel(api, Symbol("id"))\<close>, whatever the receiver.
\<close>

theorem signin_no_transport_call_counterexample:
  "invoke Signin (recording [] (\<lambda>log c. ())) Undefined [Str ''a@b.com''] [] =
     (Inl TypeError, [])
   \<and> invoke GetLevel (recording [] (\<lambda>log c. ())) (plain []) [Sym ''id''] [] =
     (Inl TypeError, [])"
  by (simp add: signin_def getLevel_def evaluate_def default_param_def arg_def)

text \<open>
  C3. Every function that does not raise returns exactly what the transport
  returned. For every function, transport, state, receiver and argument list:
  if \<open>no_type_error\<close> holds, the function issues one call, with the method it
  declares, and its outcome is the value and the state that the transport's
  \<open>get\<close> or \<open>post\<close> produced for that call, unchanged; and conversely, whenever
  a function returns a value at all, that value and the state left behind are
  what the transport produced for the one call the function issues. The result
  type is a type variable, so nothing in a function can inspect or rebuild the
  value.
\<close>

theorem invoke_passthrough:
  "(no_type_error b this vs \<longrightarrow>
      (\<exists>args. issued b this vs = [(declared_method b, args)]
         \<and> invoke b api this vs s =
             (Inr (fst (transport (declared_method b) api args s)),
              snd (transport (declared_method b) api args s))))
   \<and> (invoke b api this vs s = (Inr r, s') \<longrightarrow>
      (\<exists>args. issued b this vs = [(declared_method b, args)]
         \<and> transport (declared_method b) api args s = (r, s')))"
proof (cases "no_type_error b this vs")
  case True
  then obtain args where
    req: "request (descriptor b) (signature b) this vs = Inr (declared_method b, args)"
    by (rule request_ok)
  have issued: "issued b this vs = [(declared_method b, args)]"
    using req by (simp add: issued_request)
  have outcome: "invoke b api this vs s =
      (Inr (fst (transport (declared_method b) api args s)),
       snd (transport (declared_method b) api args s))"
    using req by (simp add: invoke_request return_call_def split: prod.splits)
  have "transport (declared_method b) api args s = (r, s')"
    if "invoke b api this vs s = (Inr r, s')"
    using that outcome by (simp add: prod_eq_iff)
  with issued outcome show ?thesis by blast
next
  case False
  then show ?thesis by (simp add: invoke_error)
qed

text \<open>
  The theorem at \<open>me(api)\<close> and at \<open>get(api, "u123")\<close>, on a transport that
  replies with the number of calls made before.
\<close>

theorem invoke_passthrough_witness:
  "no_type_error Me Undefined []
   \<and> (\<exists>args. issued Me Undefined [] = [(GET, args)]
         \<and> invoke Me (recording [] (\<lambda>log c. length log)) Undefined [] [(POST, [])] =
             (Inr (fst (transport GET (recording [] (\<lambda>log c. length log)) args [(POST, [])])),
              snd (transport GET (recording [] (\<lambda>log c. length log)) args [(POST, [])])))
   \<and> invoke Get (recording [] (\<lambda>log c. length log)) Undefined [Str ''u123''] [] =
       (Inr 0, [(GET, [Str ''/api/2/user/u123''])])
   \<and> (\<exists>args. issued Get Undefined [Str ''u123''] = [(GET, args)]
         \<and> transport GET (recording [] (\<lambda>log c. length log)) args [] =
             (0, [(GET, [Str ''/api/2/user/u123''])]))"
proof -
  have h: "invoke Get (recording [] (\<lambda>log c. length log)) Undefined [Str ''u123''] [] =
     (Inr 0, [(GET, [Str ''/api/2/user/u123''])])"
    by (simp add: get_def evaluate_def return_call_def recording_def arg_def)
  from h invoke_passthrough [of Me Undefined "[]" "recording [] (\<lambda>log c. length log)"
      "[(POST, [])]" 0 "[]"]
    invoke_passthrough [of Get Undefined "[Str ''u123'']" "recording [] (\<lambda>log c. length log)"
      "[]" 0 "[(GET, [Str ''/api/2/user/u123''])]"]
  show ?thesis by simp
qed




text \<open>
  C5. For every string \<open>userId\<close>, \<open>get(api, userId)\<close> makes one call
  \<open>api.get(path)\<close> whose single argument is the path \<open>/api/2/user/\<close> followed by
  \<open>userId\<close> unchanged: there is no second argument, so neither a query nor a
  body. On the recording transport the log grows by exactly that call, and the
  value returned is the transport's reply to it. In particular
  \<open>get(api, "u123")\<close> targets \<open>/api/2/user/u123\<close>.
\<close>

theorem get_path_interpolation:
  "get (recording own reply) (Str userId) log =
     (Inr (reply log (GET, [Str (''/api/2/user/'' @ userId)])),
      log @ [(GET, [Str (''/api/2/user/'' @ userId)])])
   \<and> snd (get (recording own reply) (Str ''u123'') []) = [(GET, [Str ''/api/2/user/u123''])]"
  by (simp add: get_def evaluate_def return_call_def recording_def)

text \<open>
  C6. The specification has no function raise, whatever the arguments and the
  receiver. Three functions read \<open>this.redirectUri\<close> and eight interpolate an argument into a
  path, and both can raise. What holds, for every function, transport, receiver
  and argument list: if \<open>no_type_error\<close> holds (the argument \<open>redirectUri\<close> is
  not \<open>undefined\<close> or \<open>this\<close> is neither \<open>undefined\<close> nor \<open>null\<close>, and every
  argument that goes into the path has a string conversion), the function raises
  nothing and returns what the transport returned; otherwise it raises a
  \<open>TypeError\<close> and leaves the transport untouched.
\<close>

theorem invoke_raises_only_TypeError:
  "(no_type_error b this vs \<longrightarrow>
      (\<exists>args. invoke b api this vs s =
         (Inr (fst (transport (declared_method b) api args s)),
          snd (transport (declared_method b) api args s))))
   \<and> (\<not> no_type_error b this vs \<longrightarrow> invoke b api this vs s = (Inl TypeError, s))"
proof (cases "no_type_error b this vs")
  case True
  then obtain args where
    "request (descriptor b) (signature b) this vs = Inr (declared_method b, args)"
    by (rule request_ok)
  then have "invoke b api this vs s =
      (Inr (fst (transport (declared_method b) api args s)),
       snd (transport (declared_method b) api args s))"
    by (simp add: invoke_request return_call_def split: prod.splits)
  with True show ?thesis by blast
next
  case False
  then show ?thesis by (simp add: invoke_error)
qed

theorem invoke_raises_only_TypeError_witness:
  "no_type_error Signup (plain []) [Str ''a@b.com'']
   \<and> (\<exists>args. invoke Signup (recording [] (\<lambda>log c. length log)) (plain []) [Str ''a@b.com''] [] =
         (Inr (fst (transport POST (recording [] (\<lambda>log c. length log)) args [])),
          snd (transport POST (recording [] (\<lambda>log c. length log)) args [])))
   \<and> \<not> no_type_error Signup Undefined [Str ''a@b.com'', Str ''secret'']
   \<and> invoke Signup (recording [] (\<lambda>log c. length log)) Undefined
        [Str ''a@b.com'', Str ''secret''] [] = (Inl TypeError, [])"
  using invoke_raises_only_TypeError [where b = Signup and this = "plain []"
      and vs = "[Str ''a@b.com'']" and api = "recording [] (\<lambda>log c. length log)" and s = "[]"]
    invoke_raises_only_TypeError [where b = Signup and this = Undefined
      and vs = "[Str ''a@b.com'', Str ''secret'']"
      and api = "recording [] (\<lambda>log c. length log)" and s = "[]"]
  by (simp add: defaultable_def arg_def)

text \<open>
  Two calls that raise: \<open>signup(api, "a@b.com", "secret")\<close> with no receiver, and
  \<open>get(api, Symbol("id"))\<close>.
\<close>

theorem invoke_raises_counterexample:
  "fst (invoke Signup (recording [] (\<lambda>log c. ())) Undefined [Str ''a@b.com'', Str ''secret''] [])
     = Inl TypeError
   \<and> fst (invoke Get (recording [] (\<lambda>log c. ())) (plain []) [Sym ''id''] []) = Inl TypeError"
  by (simp add: signup_def get_def evaluate_def default_param_def arg_def)

text \<open>
  C7. The specification has two invocations with identical arguments always
  produce two transport calls. Two invocations that raise produce none. What holds, on the
  recording transport: if the call does not raise, the first invocation appends
  one call to the log and the second, run on the log the first one left,
  appends the same call again, each returning the reply to its own call; nothing
  is remembered between the two. If the call raises, it raises a \<open>TypeError\<close>
  and the log is unchanged, every time.
\<close>

theorem invoke_twice_two_calls:
  "(no_type_error b this vs \<longrightarrow>
      (\<exists>args.
         invoke b (recording own reply) this vs log =
           (Inr (reply log (declared_method b, args)), log @ [(declared_method b, args)])
         \<and> invoke b (recording own reply) this vs (log @ [(declared_method b, args)]) =
           (Inr (reply (log @ [(declared_method b, args)]) (declared_method b, args)),
            log @ [(declared_method b, args), (declared_method b, args)])))
   \<and> (\<not> no_type_error b this vs \<longrightarrow>
      invoke b (recording own reply) this vs log = (Inl TypeError, log))"
proof (cases "no_type_error b this vs")
  case True
  then obtain args where
    "request (descriptor b) (signature b) this vs = Inr (declared_method b, args)"
    by (rule request_ok)
  then have "\<And>l. invoke b (recording own reply) this vs l =
      (Inr (reply l (declared_method b, args)), l @ [(declared_method b, args)])"
    by (simp add: invoke_request recording_call)
  then have "invoke b (recording own reply) this vs log =
           (Inr (reply log (declared_method b, args)), log @ [(declared_method b, args)])
         \<and> invoke b (recording own reply) this vs (log @ [(declared_method b, args)]) =
           (Inr (reply (log @ [(declared_method b, args)]) (declared_method b, args)),
            log @ [(declared_method b, args), (declared_method b, args)])"
    by simp
  with True show ?thesis by blast
next
  case False
  then show ?thesis by (simp add: invoke_error)
qed

theorem invoke_twice_two_calls_witness:
  "no_type_error Search Undefined [plain [(''email'', Str ''a@b.com'')]]
   \<and> (\<exists>args.
        invoke Search (recording [] (\<lambda>log c. ())) Undefined [plain [(''email'', Str ''a@b.com'')]] [] =
          (Inr (), [(GET, args)])
        \<and> invoke Search (recording [] (\<lambda>log c. ())) Undefined [plain [(''email'', Str ''a@b.com'')]]
            [(GET, args)] = (Inr (), [(GET, args), (GET, args)]))
   \<and> \<not> no_type_error TriggerVerify Undefined [Str ''u1'', Str ''newpassword'']
   \<and> invoke TriggerVerify (recording [] (\<lambda>log c. ())) Undefined [Str ''u1'', Str ''newpassword''] []
       = (Inl TypeError, [])"
  using invoke_twice_two_calls [where b = Search and this = Undefined
      and vs = "[plain [(''email'', Str ''a@b.com'')]]" and own = "[]" and reply = "\<lambda>log c. ()"
      and log = "[]"]
    invoke_twice_two_calls [where b = TriggerVerify and this = Undefined
      and vs = "[Str ''u1'', Str ''newpassword'']" and own = "[]" and reply = "\<lambda>log c. ()"
      and log = "[]"]
  by (simp add: defaultable_def arg_def)

text \<open>
  The plain call \<open>triggerVerify(api, "u1", "newpassword")\<close>, made twice: both
  invocations raise and the log stays empty. The same goes for
  \<open>acceptAgreements(api, Symbol("id"))\<close>, whatever the receiver.
\<close>

theorem triggerVerify_twice_no_call_counterexample:
  "(case invoke TriggerVerify (recording [] (\<lambda>log c. ())) Undefined
           [Str ''u1'', Str ''newpassword''] [] of
      (r1, log1) \<Rightarrow>
        (case invoke TriggerVerify (recording [] (\<lambda>log c. ())) Undefined
                [Str ''u1'', Str ''newpassword''] log1 of
           (r2, log2) \<Rightarrow> (r1, r2, log2))) = (Inl TypeError, Inl TypeError, [])
   \<and> (case invoke AcceptAgreements (recording [] (\<lambda>log c. ())) (plain []) [Sym ''id''] [] of
      (r1, log1) \<Rightarrow>
        (case invoke AcceptAgreements (recording [] (\<lambda>log c. ())) (plain []) [Sym ''id''] log1 of
           (r2, log2) \<Rightarrow> (r1, r2, log2))) = (Inl TypeError, Inl TypeError, [])"
  by (simp add: triggerVerify_def acceptAgreements_def evaluate_def default_param_def arg_def)




text \<open>
  C9. \<open>getMailHistory(api, id, email)\<close> checks nothing: for all values of \<open>id\<close>
  and \<open>email\<close>, \<open>undefined\<close> included, it makes exactly one call,
  \<open>GET /mail\<close> with the query \<open>{id, email}\<close>, and raises nothing. Likewise
  \<open>getAll\<close>: for all values of \<open>criteria\<close> and \<open>filters\<close>, objects or not, it
  makes exactly one call, \<open>GET /api/2/users\<close>, whose query is the result of
  \<open>Object.assign({}, criteria, filters)\<close> as it is.
\<close>

theorem getMailHistory_getAll_no_validation:
  "getMailHistory (recording own reply) id' email log =
     (Inr (reply log (GET, [Str ''/mail'', plain [(''id'', id'), (''email'', email)]])),
      log @ [(GET, [Str ''/mail'', plain [(''id'', id'), (''email'', email)]])])
   \<and> getAll (recording own reply) criteria filters log =
     (Inr (reply log (GET, [Str ''/api/2/users'', Obj (object_assign empty_object [criteria, filters])])),
      log @ [(GET, [Str ''/api/2/users'', Obj (object_assign empty_object [criteria, filters])])])"
  by (simp add: getMailHistory_def getAll_def return_call_def recording_def)


end
